theory Spec2Isabelle
  imports Main "HOL-Library.Char_ord" "HOL-Library.List_Lexorder" "HOL-Library.Product_Lexorder"
    "HOL-Library.Multiset"
begin

section \<open>Shared vocabulary of \<^verbatim>\<open>history/models.py\<close>\<close>

text \<open>
  The module is a set of Django models with their managers and query sets. A table is
  modelled as the list of its rows, a query set as the list of rows it yields, a nullable
  column as an \<open>option\<close>, a foreign key as the referenced row (what following the
  relation loads), and every exception the code can raise as a value of \<open>error\<close>.
  Python integers are \<open>int\<close>, columns declared positive are \<open>nat\<close>; addresses, hashes
  and the stringified trace address are \<open>string\<close>s, ordered byte-wise (the order of a
  \<^verbatim>\<open>C\<close> collation).
\<close>

type_synonym address = string
type_synonym hash = string
type_synonym bytes = string

datatype error =
    TransactionNotFoundException hash
  | TransactionWithoutBlockException hash
  | ValueError
  | IndexError
  | TypeError
  | AssertionError
  | FieldError
  | IntegrityError
  | DoesNotExist
  | MultipleObjectsReturned

section \<open>Monitored addresses and their scan cursors\<close>

text \<open>
  \<^verbatim>\<open>MonitoredAddress\<close> (abstract; \<^verbatim>\<open>ProxyFactory\<close> and \<^verbatim>\<open>SafeMasterCopy\<close> add no column)
  and \<^verbatim>\<open>SafeContract\<close>, whose manager inherits \<^verbatim>\<open>MonitoredAddressManager\<close>. The foreign key
  of a Safe contract to its transaction is kept as the transaction hash.
\<close>

record MonitoredAddress =
  address :: address
  initial_block_number :: int
  tx_block_number :: "int option"

record SafeContract =
  sc_address :: address
  sc_ethereum_tx_id :: hash
  erc20_block_number :: int

text \<open>
  An integer column named by a string: how to read it (\<open>None\<close> is SQL \<^verbatim>\<open>NULL\<close>) and how
  to assign it. A name that is no integer column of the model makes Django raise
  \<^verbatim>\<open>FieldError\<close>.
\<close>

record 'r column =
  col_get :: "'r \<Rightarrow> int option"
  col_set :: "int \<Rightarrow> 'r \<Rightarrow> 'r"


definition SafeContract_column :: "string \<Rightarrow> SafeContract column option" where
  "SafeContract_column database_field =
     (if database_field = ''erc20_block_number'' then
        Some \<lparr>col_get = (\<lambda>r. Some (erc20_block_number r)),
              col_set = (\<lambda>v r. r\<lparr>erc20_block_number := v\<rparr>)\<rparr>
      else None)"



section \<open>Blocks and transactions\<close>

text \<open>
  \<^verbatim>\<open>EthereumTx\<close>, with every column the module declares. \<open>block\<close> is the foreign key to the
  block (its number, \<^verbatim>\<open>block_id\<close>), \<^verbatim>\<open>NULL\<close> until the transaction is mined. Columns whose
  Python name is an Isabelle keyword or is shared with another model carry the model's
  prefix (\<open>tx_from\<close> is \<^verbatim>\<open>_from\<close>, \<open>tx_to\<close> is \<^verbatim>\<open>to\<close>, and so on).
\<close>

type_synonym log = string

record EthereumTx =
  block :: "nat option"
  tx_hash :: hash
  gas_used :: "nat option"
  status :: "int option"
  logs :: "log list option"
  transaction_index :: "nat option"
  tx_from :: "address option"
  gas :: nat
  gas_price :: nat
  tx_data :: "bytes option"
  nonce :: nat
  tx_to :: "address option"
  tx_value :: nat

text \<open>\<^verbatim>\<open>EthereumTx.success\<close>: \<^verbatim>\<open>None\<close> while there is no status, else \<^verbatim>\<open>status == 1\<close>.\<close>

definition success :: "EthereumTx \<Rightarrow> bool option" where
  "success tx = (case status tx of None \<Rightarrow> None | Some s \<Rightarrow> Some (s = 1))"

section \<open>Internal transactions\<close>

datatype EthereumTxCallType = CALL | DELEGATE_CALL

fun EthereumTxCallType_value :: "EthereumTxCallType \<Rightarrow> nat" where
  "EthereumTxCallType_value CALL = 0"
| "EthereumTxCallType_value DELEGATE_CALL = 1"

text \<open>
  The enum's constructor \<^verbatim>\<open>EthereumTxCallType(v)\<close>: a value that is no member raises
  \<^verbatim>\<open>ValueError\<close>.
\<close>

definition EthereumTxCallType_of :: "nat \<Rightarrow> error + EthereumTxCallType" where
  "EthereumTxCallType_of v =
     (if v = 0 then Inr CALL else if v = 1 then Inr DELEGATE_CALL else Inl ValueError)"

text \<open>
  \<^verbatim>\<open>InternalTx\<close>. \<open>itx_id\<close> is the automatic primary key and \<open>ethereum_tx\<close> the owning
  transaction; \<open>trace_address\<close> is the stringified trace address.
\<close>

record InternalTx =
  itx_id :: nat
  ethereum_tx :: EthereumTx
  itx_from :: "address option"
  itx_gas :: nat
  itx_data :: "bytes option"
  itx_to :: "address option"
  itx_value :: nat
  itx_gas_used :: nat
  contract_address :: "address option"
  itx_code :: "bytes option"
  itx_output :: "bytes option"
  refund_address :: "address option"
  tx_type :: nat
  call_type :: "nat option"
  trace_address :: string
  error :: "string option"

text \<open>\<^verbatim>\<open>InternalTxDecoded\<close>, one-to-one with an internal transaction (its primary key).\<close>

record InternalTxDecoded =
  internal_tx :: InternalTx
  function_name :: string
  arguments :: string
  processed :: bool

text \<open>
  \<^verbatim>\<open>InternalTxQuerySet.can_be_decoded\<close>:
  \<^verbatim>\<open>filter(call_type=DELEGATE_CALL.value, error=None, ethereum_tx__status=1, decoded_tx=None).exclude(data=None)\<close>.
  \<open>decoded\<close> is the table of decoded records; \<^verbatim>\<open>decoded_tx=None\<close> keeps the rows that no
  decoded record points to.
\<close>

definition can_be_decoded_queryset :: "InternalTxDecoded list \<Rightarrow> InternalTx list \<Rightarrow> InternalTx list" where
  "can_be_decoded_queryset decoded qs =
     filter (\<lambda>itx. itx_data itx \<noteq> None)
       (filter (\<lambda>itx. call_type itx = Some (EthereumTxCallType_value DELEGATE_CALL)
                   \<and> error itx = None
                   \<and> status (ethereum_tx itx) = Some 1
                   \<and> filter (\<lambda>d. itx_id (internal_tx d) = itx_id itx) decoded = []) qs)"

text \<open>\<^verbatim>\<open>InternalTx.is_delegate_call\<close>.\<close>

definition is_delegate_call :: "InternalTx \<Rightarrow> error + bool" where
  "is_delegate_call itx =
     (case call_type itx of
        None \<Rightarrow> Inr False
      | Some v \<Rightarrow>
          (case EthereumTxCallType_of v of
             Inl e \<Rightarrow> Inl e
           | Inr t \<Rightarrow> Inr (t = DELEGATE_CALL)))"

text \<open>Python truth of an optional string or byte string: \<^verbatim>\<open>None\<close> and the empty one are false.\<close>

definition truthy :: "string option \<Rightarrow> bool" where
  "truthy v = (case v of None \<Rightarrow> False | Some s \<Rightarrow> s \<noteq> [])"

text \<open>
  The property \<^verbatim>\<open>InternalTx.can_be_decoded\<close>:
  \<^verbatim>\<open>is_delegate_call and not self.error and self.data and self.ethereum_tx.success\<close>.
  The result is the truth value of the Python expression; \<^verbatim>\<open>and\<close> stops at the first
  false operand.
\<close>

definition can_be_decoded :: "InternalTx \<Rightarrow> error + bool" where
  "can_be_decoded itx =
     (case is_delegate_call itx of
        Inl e \<Rightarrow> Inl e
      | Inr d \<Rightarrow>
          Inr (d \<and> \<not> truthy (error itx) \<and> truthy (itx_data itx)
                 \<and> success (ethereum_tx itx) = Some True))"

section \<open>Ordering keys\<close>

text \<open>
  PostgreSQL sorts \<^verbatim>\<open>NULL\<close> as larger than every value (last ascending, first descending):
  a nullable column is compared through \<open>nulls_last\<close>. The key of an internal transaction
  is (block number, transaction index, trace address), compared lexicographically, the
  trace address as the stored string.
\<close>

definition nulls_last :: "nat option \<Rightarrow> bool \<times> nat" where
  "nulls_last c = (case c of None \<Rightarrow> (True, 0) | Some n \<Rightarrow> (False, n))"

type_synonym internal_tx_key = "(bool \<times> nat) \<times> (bool \<times> nat) \<times> string"

definition internal_tx_key :: "InternalTx \<Rightarrow> internal_tx_key" where
  "internal_tx_key itx =
     (nulls_last (block (ethereum_tx itx)),
      nulls_last (transaction_index (ethereum_tx itx)),
      trace_address itx)"

section \<open>Decoded internal transactions pending for Safes\<close>

text \<open>\<^verbatim>\<open>InternalTxDecodedQuerySet.not_processed\<close>.\<close>

definition not_processed :: "InternalTxDecoded list \<Rightarrow> InternalTxDecoded list" where
  "not_processed qs = filter (\<lambda>d. \<not> processed d) qs"

text \<open>
  \<^verbatim>\<open>InternalTxDecodedQuerySet.pending_for_safes\<close>: the unprocessed records whose internal
  transaction's \<^verbatim>\<open>_from\<close> is among \<^verbatim>\<open>SafeContract.objects.values('address')\<close> or whose
  function name is \<^verbatim>\<open>setup\<close>, ordered by block, transaction index and trace address.
  A \<^verbatim>\<open>NULL\<close> \<^verbatim>\<open>_from\<close> is in no list.
\<close>

definition pending_for_safes :: "SafeContract list \<Rightarrow> InternalTxDecoded list \<Rightarrow> InternalTxDecoded list" where
  "pending_for_safes safes qs =
     sort_key (\<lambda>d. internal_tx_key (internal_tx d))
       (filter (\<lambda>d. (case itx_from (internal_tx d) of
                       None \<Rightarrow> False
                     | Some a \<Rightarrow> a \<in> set (map sc_address safes))
                   \<or> function_name d = ''setup'')
          (not_processed qs))"

section \<open>Neighbouring traces of a transaction\<close>

text \<open>
  \<^verbatim>\<open>list.index(x)\<close>: the position of the first element equal to \<open>x\<close>, or \<^verbatim>\<open>ValueError\<close>.
\<close>

fun list_index :: "'a list \<Rightarrow> 'a \<Rightarrow> error + nat" where
  "list_index [] x = Inl ValueError"
| "list_index (y # ys) x =
     (if y = x then Inr 0
      else (case list_index ys x of Inl e \<Rightarrow> Inl e | Inr i \<Rightarrow> Inr (Suc i)))"

text \<open>
  Indexing an evaluated Django \<^verbatim>\<open>QuerySet\<close> with an integer: \<^verbatim>\<open>QuerySet.__getitem__\<close> first
  refuses a negative index (\<^verbatim>\<open>assert k >= 0, "Negative indexing is not supported."\<close>; later
  Django versions raise \<^verbatim>\<open>ValueError\<close> with the same message), then reads its list of
  results, which raises \<^verbatim>\<open>IndexError\<close> past the end.
\<close>

definition queryset_getitem :: "'a list \<Rightarrow> int \<Rightarrow> error + 'a" where
  "queryset_getitem results k =
     (if k < 0 then Inl AssertionError
      else if nat k < length results then Inr (results ! nat k)
      else Inl IndexError)"

text \<open>
  \<^verbatim>\<open>InternalTx.objects.filter(ethereum_tx=self.ethereum_tx).order_by('trace_address')\<close>:
  the foreign key is compared by the transaction's primary key.
\<close>

definition internal_txs_of :: "InternalTx list \<Rightarrow> InternalTx \<Rightarrow> InternalTx list" where
  "internal_txs_of table self =
     sort_key trace_address
       (filter (\<lambda>it. tx_hash (ethereum_tx it) = tx_hash (ethereum_tx self)) table)"

text \<open>
  \<^verbatim>\<open>get_next_trace\<close> and \<^verbatim>\<open>get_previous_trace\<close>: only \<^verbatim>\<open>IndexError\<close> is caught and turned into
  \<^verbatim>\<open>None\<close>; any other exception leaves the method.
\<close>

definition get_next_trace :: "InternalTx list \<Rightarrow> InternalTx \<Rightarrow> error + InternalTx option" where
  "get_next_trace table self =
     (let internal_txs = internal_txs_of table self;
          traces = map trace_address internal_txs
      in case list_index traces (trace_address self) of
           Inl e \<Rightarrow> Inl e
         | Inr index \<Rightarrow>
             (case queryset_getitem internal_txs (int index + 1) of
                Inr it \<Rightarrow> Inr (Some it)
              | Inl e \<Rightarrow> (if e = IndexError then Inr None else Inl e)))"

definition get_previous_trace :: "InternalTx list \<Rightarrow> InternalTx \<Rightarrow> error + InternalTx option" where
  "get_previous_trace table self =
     (let internal_txs = internal_txs_of table self;
          traces = map trace_address internal_txs
      in case list_index traces (trace_address self) of
           Inl e \<Rightarrow> Inl e
         | Inr index \<Rightarrow>
             (case queryset_getitem internal_txs (int index - 1) of
                Inr it \<Rightarrow> Inr (Some it)
              | Inl e \<Rightarrow> (if e = IndexError then Inr None else Inl e)))"

section \<open>The stringified trace address\<close>

text \<open>
  Python's \<^verbatim>\<open>str\<close> of a non-negative integer (the components of a node's
  \<^verbatim>\<open>traceAddress\<close>): its decimal digits.
\<close>

definition digit_char :: "nat \<Rightarrow> char" where
  "digit_char d = ''0123456789'' ! d"

fun str_nat :: "nat \<Rightarrow> string" where
  "str_nat n = (if n < 10 then [digit_char n] else str_nat (n div 10) @ [digit_char (n mod 10)])"

declare str_nat.simps [simp del]

text \<open>\<^verbatim>\<open>sep.join(parts)\<close>.\<close>

fun join :: "string \<Rightarrow> string list \<Rightarrow> string" where
  "join sep [] = []"
| "join sep [p] = p"
| "join sep (p # q # ps) = p @ sep @ join sep (q # ps)"

text \<open>
  \<^verbatim>\<open>InternalTxManager._trace_address_to_str\<close>:
  \<^verbatim>\<open>','.join([str(address) for address in trace_address])\<close>.
\<close>

definition trace_address_to_str :: "nat list \<Rightarrow> string" where
  "trace_address_to_str path = join '','' (map str_nat path)"

section \<open>Safe statuses\<close>

record SafeStatus =
  ss_internal_tx :: InternalTx
  ss_address :: address
  owners :: "address list"
  threshold :: nat
  ss_nonce :: nat
  master_copy :: address

text \<open>
  \<^verbatim>\<open>sorted_by_internal_tx\<close>: \<^verbatim>\<open>order_by('address', '-block_id', '-transaction_index',
  '-trace_address')\<close>, as a descending sort on the key followed by a stable sort on the
  address.
\<close>

definition sorted_by_internal_tx :: "SafeStatus list \<Rightarrow> SafeStatus list" where
  "sorted_by_internal_tx qs =
     sort_key ss_address (rev (sort_key (\<lambda>s. internal_tx_key (ss_internal_tx s)) qs))"

text \<open>
  PostgreSQL's \<^verbatim>\<open>DISTINCT ON (f)\<close> over ordered rows: of each run of rows with the same
  \<open>f\<close> only the first is kept.
\<close>

fun distinct_on :: "('a \<Rightarrow> 'k) \<Rightarrow> 'a list \<Rightarrow> 'a list" where
  "distinct_on f [] = []"
| "distinct_on f [x] = [x]"
| "distinct_on f (x # y # xs) =
     (if f x = f y then distinct_on f (x # xs) else x # distinct_on f (y # xs))"

text \<open>\<^verbatim>\<open>last_for_every_address\<close>: \<^verbatim>\<open>self.distinct('address')...sorted_by_internal_tx()\<close>.\<close>

definition last_for_every_address :: "SafeStatus list \<Rightarrow> SafeStatus list" where
  "last_for_every_address qs = distinct_on ss_address (sorted_by_internal_tx qs)"

text \<open>
  \<^verbatim>\<open>last_for_address\<close>: \<^verbatim>\<open>self.last_for_every_address().filter(address=address).first()\<close>.
  The filter is part of the query's \<^verbatim>\<open>WHERE\<close> clause, so it selects the rows before they
  are ordered and made distinct; \<^verbatim>\<open>first()\<close> is the first row or \<^verbatim>\<open>None\<close>.
\<close>

definition last_for_address :: "SafeStatus list \<Rightarrow> address \<Rightarrow> SafeStatus option" where
  "last_for_address qs a =
     (case last_for_every_address (filter (\<lambda>s. ss_address s = a) qs) of
        [] \<Rightarrow> None
      | safe_status # _ \<Rightarrow> Some safe_status)"

section \<open>Transfer events\<close>

text \<open>
  The decoded arguments of a transfer log: the keys a decoded ERC-20 or ERC-721
  \<^verbatim>\<open>Transfer\<close> carries, each present (\<open>Some\<close>) or absent. \<^verbatim>\<open>'value' in args\<close> and
  \<^verbatim>\<open>arguments__has_key='value'\<close> are \<open>arg_value args \<noteq> None\<close>.
\<close>

record event_args =
  arg_from :: "address option"
  arg_to :: "address option"
  arg_value :: "int option"
  arg_tokenId :: "int option"

record EthereumEvent =
  ev_ethereum_tx_id :: hash
  log_index :: nat
  ev_address :: address
  topic :: hash
  topics :: "hash list"
  ev_arguments :: event_args

text \<open>
  \<^verbatim>\<open>gnosis.eth.constants.ERC20_721_TRANSFER_TOPIC\<close>, the hash of
  \<^verbatim>\<open>Transfer(address,address,uint256)\<close>.
\<close>

definition ERC20_721_TRANSFER_TOPIC :: hash where
  "ERC20_721_TRANSFER_TOPIC = ''ddf252ad1be2c89b69c2b068fc378daa952ba7f163c4a11628f55a4df523b3ef''"





text \<open>The decoded event handed to \<^verbatim>\<open>get_or_create_erc20_or_721_event\<close>.\<close>

record decoded_event =
  de_transactionHash :: hash
  de_logIndex :: nat
  de_address :: address
  de_topics :: "hash list"
  de_args :: event_args

text \<open>
  \<^verbatim>\<open>get_or_create_erc20_or_721_event\<close>. The arguments of \<^verbatim>\<open>get_or_create\<close> are evaluated
  first (\<^verbatim>\<open>decoded_event['topics'][0]\<close> raises \<^verbatim>\<open>IndexError\<close> on an empty list); the lookup is
  by (transaction, log index), and a miss creates the row, which needs its transaction
  to exist (the foreign key). The result is the row, whether it was created, and the
  new table.
\<close>

definition get_or_create_erc20_or_721_event ::
  "EthereumTx list \<Rightarrow> EthereumEvent list \<Rightarrow> decoded_event
     \<Rightarrow> error + ((EthereumEvent \<times> bool) \<times> EthereumEvent list)" where
  "get_or_create_erc20_or_721_event txs table ev =
     (if arg_value (de_args ev) = None \<or> arg_tokenId (de_args ev) = None then Inl ValueError
      else case de_topics ev of
        [] \<Rightarrow> Inl IndexError
      | t # _ \<Rightarrow>
          (case filter (\<lambda>e. ev_ethereum_tx_id e = de_transactionHash ev
                           \<and> log_index e = de_logIndex ev) table of
             [] \<Rightarrow>
               (if filter (\<lambda>tx. tx_hash tx = de_transactionHash ev) txs = [] then Inl IntegrityError
                else let created = \<lparr>ev_ethereum_tx_id = de_transactionHash ev,
                                    log_index = de_logIndex ev,
                                    ev_address = de_address ev,
                                    topic = t,
                                    topics = de_topics ev,
                                    ev_arguments = de_args ev\<rparr>
                     in Inr ((created, True), table @ [created]))
           | [e] \<Rightarrow> Inr ((e, False), table)
           | _ \<Rightarrow> Inl MultipleObjectsReturned))"


section \<open>Example rows\<close>

text \<open>Concrete rows on which the theorems below are instantiated.\<close>

definition example_tx :: "hash \<Rightarrow> nat option \<Rightarrow> nat option \<Rightarrow> int option \<Rightarrow> EthereumTx" where
  "example_tx h b i s =
     \<lparr>block = b, tx_hash = h, gas_used = None, status = s, logs = None,
      transaction_index = i, tx_from = Some ''0xF'', gas = 21000, gas_price = 1,
      tx_data = None, nonce = 7, tx_to = None, tx_value = 5\<rparr>"

definition example_itx :: "nat \<Rightarrow> EthereumTx \<Rightarrow> address option \<Rightarrow> string \<Rightarrow> InternalTx" where
  "example_itx i tx f ta =
     \<lparr>itx_id = i, ethereum_tx = tx, itx_from = f, itx_gas = 0, itx_data = Some ''x'',
      itx_to = None, itx_value = 0, itx_gas_used = 0, contract_address = None,
      itx_code = None, itx_output = None, refund_address = None, tx_type = 0,
      call_type = Some 1, trace_address = ta, error = None\<rparr>"

definition example_decoded :: "InternalTx \<Rightarrow> string \<Rightarrow> bool \<Rightarrow> InternalTxDecoded" where
  "example_decoded itx f p =
     \<lparr>internal_tx = itx, function_name = f, arguments = [], processed = p\<rparr>"


definition example_decoded_event :: "int option \<Rightarrow> int option \<Rightarrow> decoded_event" where
  "example_decoded_event v t =
     \<lparr>de_transactionHash = ''0x01'', de_logIndex = 0, de_address = ''0xT'',
      de_topics = [ERC20_721_TRANSFER_TOPIC],
      de_args = \<lparr>arg_from = Some ''0xA'', arg_to = Some ''0xB'',
                 arg_value = v, arg_tokenId = t\<rparr>\<rparr>"

section \<open>Cursor updates\<close>



section \<open>Eligibility for decoding\<close>

text \<open>
  C2. An internal transaction is in the work queue of \<^verbatim>\<open>can_be_decoded()\<close> and satisfies
  the property \<^verbatim>\<open>can_be_decoded\<close> if and only if it is a row of the table, its call type is
  \<^verbatim>\<open>DELEGATE_CALL\<close>, its error is null, it has a non-empty payload, its transaction has
  status 1 and no decoded record points to it. When the owning transaction has status 0
  it is neither in the queue nor does the property hold.
\<close>

theorem can_be_decoded_iff:
  "((itx \<in> set (can_be_decoded_queryset decoded qs) \<and> can_be_decoded itx = Inr True)
      = (itx \<in> set qs
         \<and> call_type itx = Some (EthereumTxCallType_value DELEGATE_CALL)
         \<and> error itx = None
         \<and> (\<exists>d. itx_data itx = Some d \<and> d \<noteq> [])
         \<and> status (ethereum_tx itx) = Some 1
         \<and> (\<forall>d \<in> set decoded. itx_id (internal_tx d) \<noteq> itx_id itx)))
   \<and> (status (ethereum_tx itx) = Some 0 \<longrightarrow>
         itx \<notin> set (can_be_decoded_queryset decoded qs) \<and> can_be_decoded itx \<noteq> Inr True)"
  by (auto simp add: can_be_decoded_queryset_def can_be_decoded_def is_delegate_call_def
      EthereumTxCallType_of_def truthy_def success_def filter_empty_conv split: option.splits)

theorem can_be_decoded_iff_witness:
  "example_itx 1 (example_tx ''0x01'' (Some 3) (Some 0) (Some 1)) (Some ''0xA'') ''0''
     \<in> set (can_be_decoded_queryset []
              [example_itx 1 (example_tx ''0x01'' (Some 3) (Some 0) (Some 1)) (Some ''0xA'') ''0''])
   \<and> can_be_decoded
       (example_itx 1 (example_tx ''0x01'' (Some 3) (Some 0) (Some 1)) (Some ''0xA'') ''0'')
       = Inr True
   \<and> example_itx 1 (example_tx ''0x01'' (Some 3) (Some 0) (Some 0)) (Some ''0xA'') ''0''
     \<notin> set (can_be_decoded_queryset []
              [example_itx 1 (example_tx ''0x01'' (Some 3) (Some 0) (Some 0)) (Some ''0xA'') ''0''])
   \<and> can_be_decoded
       (example_itx 1 (example_tx ''0x01'' (Some 3) (Some 0) (Some 0)) (Some ''0xA'') ''0'')
       \<noteq> Inr True"
  using
    can_be_decoded_iff
      [of "example_itx 1 (example_tx ''0x01'' (Some 3) (Some 0) (Some 1)) (Some ''0xA'') ''0''" "[]"
          "[example_itx 1 (example_tx ''0x01'' (Some 3) (Some 0) (Some 1)) (Some ''0xA'') ''0'']"]
    can_be_decoded_iff
      [of "example_itx 1 (example_tx ''0x01'' (Some 3) (Some 0) (Some 0)) (Some ''0xA'') ''0''" "[]"
          "[example_itx 1 (example_tx ''0x01'' (Some 3) (Some 0) (Some 0)) (Some ''0xA'') ''0'']"]
  by (simp add: example_itx_def example_tx_def)

section \<open>The queue of pending decoded operations\<close>

text \<open>
  C3. \<^verbatim>\<open>pending_for_safes\<close> yields exactly (as a multiset of rows) the unprocessed decoded
  records whose internal transaction's \<^verbatim>\<open>_from\<close> is the address of a known Safe contract
  or whose function name is \<^verbatim>\<open>setup\<close>, in ascending order of the key (block number,
  transaction index, trace address).
\<close>

theorem pending_for_safes_exact_and_sorted:
  "mset (pending_for_safes safes qs)
     = filter_mset (\<lambda>d. \<not> processed d \<and>
          ((\<exists>s \<in> set safes. itx_from (internal_tx d) = Some (sc_address s))
           \<or> function_name d = ''setup''))
         (mset qs)
   \<and> sorted (map (\<lambda>d. internal_tx_key (internal_tx d)) (pending_for_safes safes qs))"
  apply (simp add: pending_for_safes_def not_processed_def)
  apply (rule filter_mset_cong)
   apply (auto split: option.splits)
  done

theorem pending_for_safes_exact_and_sorted_witness:
  "pending_for_safes
     [\<lparr>sc_address = ''0xA'', sc_ethereum_tx_id = ''0x01'', erc20_block_number = 0\<rparr>]
     [example_decoded (example_itx 1 (example_tx ''0x02'' (Some 4) (Some 0) (Some 1)) (Some ''0xA'') ''1'')
        ''addOwner'' False,
      example_decoded (example_itx 2 (example_tx ''0x03'' (Some 4) (Some 0) (Some 1)) (Some ''0xB'') ''0'')
        ''addOwner'' False,
      example_decoded (example_itx 3 (example_tx ''0x01'' (Some 3) (Some 2) (Some 1)) (Some ''0xC'') ''0'')
        ''setup'' False,
      example_decoded (example_itx 4 (example_tx ''0x01'' (Some 3) (Some 2) (Some 1)) (Some ''0xA'') ''0,0'')
        ''setup'' True]
   = [example_decoded (example_itx 3 (example_tx ''0x01'' (Some 3) (Some 2) (Some 1)) (Some ''0xC'') ''0'')
        ''setup'' False,
      example_decoded (example_itx 1 (example_tx ''0x02'' (Some 4) (Some 0) (Some 1)) (Some ''0xA'') ''1'')
        ''addOwner'' False]"
  using pending_for_safes_exact_and_sorted
    [of "[\<lparr>sc_address = ''0xA'', sc_ethereum_tx_id = ''0x01'', erc20_block_number = 0\<rparr>]"
        "[example_decoded (example_itx 1 (example_tx ''0x02'' (Some 4) (Some 0) (Some 1)) (Some ''0xA'') ''1'')
            ''addOwner'' False,
          example_decoded (example_itx 2 (example_tx ''0x03'' (Some 4) (Some 0) (Some 1)) (Some ''0xB'') ''0'')
            ''addOwner'' False,
          example_decoded (example_itx 3 (example_tx ''0x01'' (Some 3) (Some 2) (Some 1)) (Some ''0xC'') ''0'')
            ''setup'' False,
          example_decoded (example_itx 4 (example_tx ''0x01'' (Some 3) (Some 2) (Some 1)) (Some ''0xA'') ''0,0'')
            ''setup'' True]"]
  by (simp add: pending_for_safes_def not_processed_def internal_tx_key_def nulls_last_def
      example_decoded_def example_itx_def example_tx_def)

section \<open>Token balances\<close>






section \<open>Storing a transfer event\<close>

text \<open>
  C10. \<^verbatim>\<open>get_or_create_erc20_or_721_event\<close> raises \<^verbatim>\<open>ValueError\<close> for every decoded event
  whose arguments lack \<^verbatim>\<open>value\<close> or lack \<^verbatim>\<open>tokenId\<close>, and then the table is not touched;
  whenever it returns, the arguments carry both keys. An event with exactly one of
  the two keys is therefore rejected.
\<close>

theorem get_or_create_requires_both_keys:
  "(arg_value (de_args ev) = None \<or> arg_tokenId (de_args ev) = None
      \<longrightarrow> get_or_create_erc20_or_721_event txs table ev = Inl ValueError)
   \<and> (\<forall>r. get_or_create_erc20_or_721_event txs table ev = Inr r \<longrightarrow>
         arg_value (de_args ev) \<noteq> None \<and> arg_tokenId (de_args ev) \<noteq> None)"
  by (simp add: get_or_create_erc20_or_721_event_def)

theorem get_or_create_requires_both_keys_witness:
  "get_or_create_erc20_or_721_event [example_tx ''0x01'' (Some 3) (Some 0) (Some 1)] []
     (example_decoded_event (Some 10) None) = Inl ValueError
   \<and> get_or_create_erc20_or_721_event [example_tx ''0x01'' (Some 3) (Some 0) (Some 1)] []
     (example_decoded_event None (Some 10)) = Inl ValueError
   \<and> \<not> isl (get_or_create_erc20_or_721_event [example_tx ''0x01'' (Some 3) (Some 0) (Some 1)] []
              (example_decoded_event (Some 10) (Some 10)))"
  using
    get_or_create_requires_both_keys
      [of "example_decoded_event (Some 10) None"
          "[example_tx ''0x01'' (Some 3) (Some 0) (Some 1)]" "[]"]
    get_or_create_requires_both_keys
      [of "example_decoded_event None (Some 10)"
          "[example_tx ''0x01'' (Some 3) (Some 0) (Some 1)]" "[]"]
    get_or_create_requires_both_keys
      [of "example_decoded_event (Some 10) (Some 10)"
          "[example_tx ''0x01'' (Some 3) (Some 0) (Some 1)]" "[]"]
  by (simp add: get_or_create_erc20_or_721_event_def example_decoded_event_def example_tx_def
      Let_def)

section \<open>The order of stored trace addresses\<close>

lemma nat_below_10:
  "(d::nat) < 10 \<Longrightarrow>
   d = 0 \<or> d = 1 \<or> d = 2 \<or> d = 3 \<or> d = 4 \<or> d = 5 \<or> d = 6 \<or> d = 7 \<or> d = 8 \<or> d = 9"
  by arith

lemma of_char_digit_char: "d < 10 \<Longrightarrow> of_char (digit_char d) = 48 + d"
  using nat_below_10[of d] by (auto simp add: digit_char_def)

lemma digit_char_less: "a < 10 \<Longrightarrow> b < 10 \<Longrightarrow> (digit_char a < digit_char b) = (a < b)"
  by (simp add: less_char_def of_char_digit_char)

lemma digit_char_eq: "a < 10 \<Longrightarrow> b < 10 \<Longrightarrow> (digit_char a = digit_char b) = (a = b)"
  by (metis of_char_digit_char add_left_cancel)

lemma str_nat_digit: "a < 10 \<Longrightarrow> str_nat a = [digit_char a]"
  by (simp add: str_nat.simps)

lemma trace_address_to_str_Nil: "trace_address_to_str [] = []"
  by (simp add: trace_address_to_str_def)

lemma trace_address_to_str_Cons:
  "a < 10 \<Longrightarrow>
   trace_address_to_str (a # p) =
     digit_char a # (if p = [] then [] else CHR '','' # trace_address_to_str p)"
  by (cases p) (simp_all add: trace_address_to_str_def str_nat_digit)

lemma Nil_less_iff: "(([]::'a::order list) < xs) = (xs \<noteq> [])"
  by (cases xs) simp_all

lemma trace_address_to_str_less:
  "\<forall>c \<in> set p \<union> set q. c < 10 \<Longrightarrow>
   (trace_address_to_str p < trace_address_to_str q) = (p < q)"
proof (induction p arbitrary: q)
  case Nil
  then show ?case
    by (cases q) (simp_all add: trace_address_to_str_Nil trace_address_to_str_Cons)
next
  case (Cons a p)
  show ?case
  proof (cases q)
    case Nil
    then show ?thesis
      using Cons.prems by (simp add: trace_address_to_str_Nil trace_address_to_str_Cons)
  next
    case (Cons b q')
    have a: "a < 10" and b: "b < 10"
      using Cons.prems Cons by auto
    have ih: "(trace_address_to_str p < trace_address_to_str q') = (p < q')"
      using Cons.IH[of q'] Cons.prems Cons by auto
    have e: "trace_address_to_str (a # p) < trace_address_to_str (b # q')
       \<longleftrightarrow> (a < b \<or> a = b \<and> p < q')"
      using ih a b
      by (simp add: trace_address_to_str_Cons digit_char_less digit_char_eq Nil_less_iff)
    show ?thesis
      unfolding Cons e by simp
  qed
qed

lemma trace_address_to_str_eq:
  "\<forall>c \<in> set p \<union> set q. c < 10 \<Longrightarrow>
   (trace_address_to_str p = trace_address_to_str q) = (p = q)"
proof (induction p arbitrary: q)
  case Nil
  then show ?case
    by (cases q) (simp_all add: trace_address_to_str_Nil trace_address_to_str_Cons)
next
  case (Cons a p)
  show ?case
  proof (cases q)
    case Nil
    then show ?thesis
      using Cons.prems by (simp add: trace_address_to_str_Nil trace_address_to_str_Cons)
  next
    case (Cons b q')
    have a: "a < 10" and b: "b < 10"
      using Cons.prems Cons by auto
    have ih: "(trace_address_to_str p = trace_address_to_str q') = (p = q')"
      using Cons.IH[of q'] Cons.prems Cons by auto
    have e: "trace_address_to_str (a # p) = trace_address_to_str (b # q')
       \<longleftrightarrow> (a = b \<and> p = q')"
      using ih a b by (auto simp add: trace_address_to_str_Cons digit_char_eq)
    show ?thesis
      unfolding Cons e by simp
  qed
qed

lemma trace_address_to_str_le:
  "\<forall>c \<in> set p \<union> set q. c < 10 \<Longrightarrow>
   (trace_address_to_str p \<le> trace_address_to_str q) = (p \<le> q)"
  unfolding le_less using trace_address_to_str_less[of p q] trace_address_to_str_eq[of p q]
  by simp

lemma insort_key_order_embedding:
  fixes f :: "'a::linorder \<Rightarrow> 'b::linorder"
  assumes "\<forall>y \<in> set ys. (f x \<le> f y) = (x \<le> y)"
  shows "insort_key f x ys = insort x ys"
  using assms by (induction ys) simp_all


lemma sort_key_order_embedding:
  fixes f :: "'a::linorder \<Rightarrow> 'b::linorder"
  assumes "\<forall>x \<in> set xs. \<forall>y \<in> set xs. (f x \<le> f y) = (x \<le> y)"
  shows "sort_key f xs = sort xs"
  using assms
proof (induction xs)
  case Nil
  show ?case by simp
next
  case (Cons x xs)
  have ih: "sort_key f xs = sort xs"
    using Cons by simp
  have "\<forall>y \<in> set (sort xs). (f x \<le> f y) = (x \<le> y)"
    using Cons.prems by simp
  then have "insort_key f x (sort xs) = insort x (sort xs)"
    by (rule insort_key_order_embedding)
  then show ?case
    by (simp add: ih)
qed

text \<open>
  C6 (as amended). Sorting trace-address paths by their stored key (the comma-joined
  decimal string, compared byte-wise) is sorting them in the component-wise numeric,
  prefix-first order of the paths (the traversal order of the call tree) whenever every
  component of every path is below 10.
\<close>

theorem sort_by_stored_trace_address_single_digits:
  assumes "\<forall>p \<in> set ps. \<forall>c \<in> set p. c < 10"
  shows "sort_key trace_address_to_str ps = sort ps"
proof (rule sort_key_order_embedding, intro ballI)
  fix x y
  assume "x \<in> set ps" "y \<in> set ps"
  then have "\<forall>c \<in> set x \<union> set y. c < 10"
    using assms by blast
  then show "(trace_address_to_str x \<le> trace_address_to_str y) = (x \<le> y)"
    by (rule trace_address_to_str_le)
qed

theorem sort_by_stored_trace_address_single_digits_witness:
  "sort_key trace_address_to_str [[2], [1, 0], [1], [0, 9, 3]] = [[0, 9, 3], [1], [1, 0], [2]]"
proof -
  have h: "\<forall>p \<in> set [[2], [1, 0], [1], [0, 9, 3::nat]]. \<forall>c \<in> set p. c < 10"
    by simp
  show ?thesis
    using sort_by_stored_trace_address_single_digits[OF h] by simp
qed

text \<open>
  With a component of two digits the stored order is no longer the numeric one: the
  path \<open>[2]\<close> is stored as \<^verbatim>\<open>"2"\<close>, the path \<open>[10]\<close> as \<^verbatim>\<open>"10"\<close>, and \<^verbatim>\<open>"10"\<close> sorts first.
\<close>

theorem sort_by_stored_trace_address_counterexample:
  "sort_key trace_address_to_str [[2], [10]] = [[10], [2]] \<and> sort [[2], [10::nat]] = [[2], [10]]"
  by (simp add: trace_address_to_str_def digit_char_def str_nat.simps)

section \<open>Neighbouring traces\<close>

text \<open>
  C5 at a transaction with the two traces \<^verbatim>\<open>"0"\<close> and \<^verbatim>\<open>"1"\<close>: the successor of the
  first is the second, the predecessor of the second is the first, the last has no
  successor (\<^verbatim>\<open>None\<close>), but asking the first for its predecessor indexes the query set
  at \<open>-1\<close>, which raises instead of returning \<^verbatim>\<open>None\<close>.
\<close>

theorem get_previous_trace_of_first_raises:
  "get_next_trace
     [example_itx 1 (example_tx ''0x01'' (Some 3) (Some 0) (Some 1)) (Some ''0xA'') ''0'',
      example_itx 2 (example_tx ''0x01'' (Some 3) (Some 0) (Some 1)) (Some ''0xA'') ''1'']
     (example_itx 1 (example_tx ''0x01'' (Some 3) (Some 0) (Some 1)) (Some ''0xA'') ''0'')
   = Inr (Some (example_itx 2 (example_tx ''0x01'' (Some 3) (Some 0) (Some 1)) (Some ''0xA'') ''1''))
   \<and> get_previous_trace
     [example_itx 1 (example_tx ''0x01'' (Some 3) (Some 0) (Some 1)) (Some ''0xA'') ''0'',
      example_itx 2 (example_tx ''0x01'' (Some 3) (Some 0) (Some 1)) (Some ''0xA'') ''1'']
     (example_itx 2 (example_tx ''0x01'' (Some 3) (Some 0) (Some 1)) (Some ''0xA'') ''1'')
   = Inr (Some (example_itx 1 (example_tx ''0x01'' (Some 3) (Some 0) (Some 1)) (Some ''0xA'') ''0''))
   \<and> get_next_trace
     [example_itx 1 (example_tx ''0x01'' (Some 3) (Some 0) (Some 1)) (Some ''0xA'') ''0'',
      example_itx 2 (example_tx ''0x01'' (Some 3) (Some 0) (Some 1)) (Some ''0xA'') ''1'']
     (example_itx 2 (example_tx ''0x01'' (Some 3) (Some 0) (Some 1)) (Some ''0xA'') ''1'')
   = Inr None
   \<and> get_previous_trace
     [example_itx 1 (example_tx ''0x01'' (Some 3) (Some 0) (Some 1)) (Some ''0xA'') ''0'',
      example_itx 2 (example_tx ''0x01'' (Some 3) (Some 0) (Some 1)) (Some ''0xA'') ''1'']
     (example_itx 1 (example_tx ''0x01'' (Some 3) (Some 0) (Some 1)) (Some ''0xA'') ''0'')
   = Inl AssertionError"
  by (simp add: get_next_trace_def get_previous_trace_def internal_txs_of_def
      queryset_getitem_def example_itx_def example_tx_def)

end
